theory Spec2Isabelle
  imports Main "HOL-Library.AList"
begin

section \<open>Strings and dictionaries\<close>

text \<open>
  A Python \<open>str\<close> is modelled as a \<open>string\<close> holding its UTF-8 bytes, so every ASCII
  character is one \<open>char\<close>. A \<open>dict\<close> with string keys is an association list in
  insertion order: \<open>d[k] = v\<close> is \<open>AList.update k v d\<close> (an existing key keeps its
  place, a new key goes last), \<open>k in d\<close> and \<open>d[k]\<close> are \<open>map_of d k\<close>, and
  \<open>d.items()\<close> is the list itself.
\<close>

type_synonym dict = "(string \<times> string) list"

text \<open>The ASCII characters for which \<open>str.isspace\<close> holds (also what \<open>\s\<close> matches).\<close>

definition isspace :: "char \<Rightarrow> bool" where
  "isspace c = (c \<in> set [CHR 0x09, CHR 0x0A, CHR 0x0B, CHR 0x0C, CHR 0x0D,
                          CHR 0x1C, CHR 0x1D, CHR 0x1E, CHR 0x1F, CHR 0x20])"

definition strip :: "string \<Rightarrow> string" where
  "strip s = rev (dropWhile isspace (rev (dropWhile isspace s)))"

definition startswith :: "string \<Rightarrow> string \<Rightarrow> bool" where
  "startswith s p = (take (length p) s = p)"

definition endswith :: "string \<Rightarrow> string \<Rightarrow> bool" where
  "endswith s p = (length p \<le> length s \<and> drop (length s - length p) s = p)"

text \<open>\<open>s[1:-1]\<close>: empty for a string of one character.\<close>

definition slice_1_m1 :: "string \<Rightarrow> string" where
  "slice_1_m1 s = butlast (tl s)"

text \<open>Decimal text of a natural number, as \<open>str(n)\<close> and \<open>{n}\<close> in an f-string give it.\<close>

definition digit_char :: "nat \<Rightarrow> char" where
  "digit_char d = ''0123456789'' ! d"

fun str_nat :: "nat \<Rightarrow> string" where
  "str_nat n = (if n < 10 then [digit_char n] else str_nat (n div 10) @ [digit_char (n mod 10)])"

declare str_nat.simps [simp del]

definition str_int :: "int \<Rightarrow> string" where
  "str_int i = (if i < 0 then CHR ''-'' # str_nat (nat (- i)) else str_nat (nat i))"

text \<open>The symbols the scripts print, as UTF-8: U+274C, U+2705 and U+26A0 U+FE0F.\<close>

definition cross_mark :: string where
  "cross_mark = [CHR 0xE2, CHR 0x9D, CHR 0x8C]"

definition check_mark :: string where
  "check_mark = [CHR 0xE2, CHR 0x9C, CHR 0x85]"

definition warning_sign :: string where
  "warning_sign = [CHR 0xE2, CHR 0x9A, CHR 0xA0, CHR 0xEF, CHR 0xB8, CHR 0x8F]"

section \<open>The env-file parser (set\_gh\_secrets.py, \<open>parse_env_file\<close>)\<close>

text \<open>
  A file opened in text mode yields its lines with \<open>\r\n\<close> and \<open>\r\<close> translated to
  \<open>\n\<close>; each line keeps its terminator.
\<close>

fun universal_newlines :: "string \<Rightarrow> string" where
  "universal_newlines [] = []"
| "universal_newlines (c # cs) =
     (if c = CHR 0x0D then
        (case cs of
           [] \<Rightarrow> [CHR 0x0A]
         | d # ds \<Rightarrow> if d = CHR 0x0A then CHR 0x0A # universal_newlines ds
                    else CHR 0x0A # universal_newlines cs)
      else c # universal_newlines cs)"

fun split_lines :: "string \<Rightarrow> string list" where
  "split_lines [] = []"
| "split_lines (c # cs) =
     (if c = CHR 0x0A then [c] # split_lines cs
      else (case split_lines cs of [] \<Rightarrow> [[c]] | l # ls \<Rightarrow> (c # l) # ls))"

definition file_lines :: "string \<Rightarrow> string list" where
  "file_lines content = split_lines (universal_newlines content)"

text \<open>
  \<open>re.match(r'^export\s+([A-Z_]+)=(.*)$', line)\<close>, giving groups 1 and 2. The
  whitespace run and the name run are maximal and neither can give a character back
  (the next item of the pattern matches none of their characters), so the match is
  deterministic. \<open>.\<close> matches no newline and \<open>$\<close> matches at the end of the
  string or before a newline that ends it.
\<close>

definition is_name_char :: "char \<Rightarrow> bool" where
  "is_name_char c = ((65 \<le> (of_char c :: nat) \<and> (of_char c :: nat) \<le> 90) \<or> c = CHR ''_'')"

definition match_export :: "string \<Rightarrow> (string \<times> string) option" where
  "match_export line =
     (if \<not> startswith line ''export'' then None
      else
        let r = drop 6 line;
            ws = takeWhile isspace r;
            r1 = dropWhile isspace r;
            name = takeWhile is_name_char r1;
            r2 = dropWhile is_name_char r1
        in if ws = [] \<or> name = [] then None
           else (case r2 of
                   [] \<Rightarrow> None
                 | e # rest \<Rightarrow>
                     if e \<noteq> CHR ''='' then None
                     else
                       let v = takeWhile (\<lambda>c. c \<noteq> CHR 0x0A) rest;
                           after = dropWhile (\<lambda>c. c \<noteq> CHR 0x0A) rest
                       in if after = [] \<or> after = [CHR 0x0A] then Some (name, v) else None))"

text \<open>Quote removal: a value that starts and ends with the same quote loses both ends.\<close>

definition remove_quotes :: "string \<Rightarrow> string" where
  "remove_quotes var_value =
     (if (startswith var_value [CHR 0x22] \<and> endswith var_value [CHR 0x22]) \<or>
         (startswith var_value [CHR 0x27] \<and> endswith var_value [CHR 0x27])
      then slice_1_m1 var_value else var_value)"

text \<open>First pass: one step of the loop over the lines, and the loop.\<close>

definition collect_line :: "dict \<Rightarrow> string \<Rightarrow> dict" where
  "collect_line simple_vars raw_line =
     (let line = strip raw_line
      in if line = [] \<or> startswith line ''#'' then simple_vars
         else (case match_export line of
                 None \<Rightarrow> simple_vars
               | Some (var_name, g2) \<Rightarrow>
                   AList.update var_name (remove_quotes (strip g2)) simple_vars))"

definition first_pass :: "string list \<Rightarrow> dict" where
  "first_pass lns = foldl collect_line [] lns"

text \<open>
  Second pass: the loop over \<open>simple_vars.items()\<close>. \<open>environ\<close> is \<open>os.environ\<close>;
  \<open>if env_value\<close> takes an empty value like a missing one. The printed lines are
  returned beside the dictionary, oldest first.
\<close>

definition unresolved_warning :: "string \<Rightarrow> string \<Rightarrow> string" where
  "unresolved_warning ref_name var_name =
     warning_sign @ ''  Warning: Unresolved variable reference $'' @ ref_name @
     '' in '' @ var_name"

fun second_pass ::
  "(string \<rightharpoonup> string) \<Rightarrow> dict \<Rightarrow> dict \<Rightarrow> dict \<times> string list \<Rightarrow> dict \<times> string list" where
  "second_pass environ simple_vars [] acc = acc"
| "second_pass environ simple_vars ((var_name, var_value) # items) (variables, out) =
     (if startswith var_value ''$'' then
        (let ref_name = drop 1 var_value
         in case map_of simple_vars ref_name of
              Some v \<Rightarrow>
                second_pass environ simple_vars items (AList.update var_name v variables, out)
            | None \<Rightarrow>
                (case environ ref_name of
                   None \<Rightarrow>
                     second_pass environ simple_vars items
                       (AList.update var_name var_value variables,
                        out @ [unresolved_warning ref_name var_name])
                 | Some env_value \<Rightarrow>
                     if env_value \<noteq> [] then
                       second_pass environ simple_vars items
                         (AList.update var_name env_value variables, out)
                     else
                       second_pass environ simple_vars items
                         (AList.update var_name var_value variables,
                          out @ [unresolved_warning ref_name var_name])))
      else second_pass environ simple_vars items (AList.update var_name var_value variables, out))"

definition parse_env_file :: "(string \<rightharpoonup> string) \<Rightarrow> string \<Rightarrow> dict \<times> string list" where
  "parse_env_file environ content =
     (let simple_vars = first_pass (file_lines content)
      in second_pass environ simple_vars simple_vars ([], []))"

section \<open>The HTTP and library boundary\<close>

text \<open>A decoded JSON document (\<open>response.json()\<close>); an object is a dictionary.\<close>

datatype json =
    JNull
  | JBool bool
  | JNumber int
  | JString string
  | JArray "json list"
  | JObject "(string \<times> json) list"

text \<open>
  A \<open>requests.Response\<close>: \<open>json_body\<close> is what \<open>json()\<close> gives, \<open>Inl\<close> the
  message of the decoding error it raises.
\<close>

record response =
  status_code :: int
  reason :: string
  resp_url :: string
  body_text :: string
  json_body :: "string + json"

text \<open>
  The exceptions of the model, by class. \<open>Exception\<close> is an instance of the base class
  itself; \<open>RequestException\<close> stands for \<open>requests.exceptions.RequestException\<close> and
  its subclasses (connection errors, \<open>HTTPError\<close>, the JSON decoding error of
  \<open>json()\<close>), with its \<open>response\<close> attribute; \<open>LibraryError\<close> is an error raised
  inside base64 or PyNaCl. All of them derive from \<open>Exception\<close>.
\<close>

datatype exn =
    Exception string
  | RequestException string "response option"
  | KeyError string
  | TypeError string
  | LibraryError string

fun is_RequestException :: "exn \<Rightarrow> bool" where
  "is_RequestException (RequestException msg r) = True"
| "is_RequestException e = False"

fun str_exn :: "exn \<Rightarrow> string" where
  "str_exn (Exception msg) = msg"
| "str_exn (RequestException msg r) = msg"
| "str_exn (KeyError k) = [CHR 0x27] @ k @ [CHR 0x27]"
| "str_exn (TypeError msg) = msg"
| "str_exn (LibraryError msg) = msg"

datatype http_method = GET | PUT

record request =
  meth :: http_method
  req_url :: string
  req_headers :: "(string \<times> string) list"
  json_payload :: "json option"

text \<open>What a call of \<open>requests.get\<close> or \<open>requests.put\<close> does: raise or return.\<close>

datatype outcome = Raises string | Reply response

text \<open>
  Everything outside the scripts. \<open>net\<close> answers a request given the requests made
  before it, so the remote side may change between calls (a rotated key).
  \<open>b64decode\<close>, \<open>PublicKey\<close>, \<open>sealed_box_encrypt\<close> and \<open>b64encode\<close> are the
  functions of base64 and PyNaCl; sealing draws fresh randomness, here the number of
  the draw.
\<close>

record env =
  net :: "request list \<Rightarrow> request \<Rightarrow> outcome"
  b64decode :: "json \<Rightarrow> exn + string"
  PublicKey :: "string \<Rightarrow> exn + string"
  sealed_box_encrypt :: "nat \<Rightarrow> string \<Rightarrow> string \<Rightarrow> string"
  b64encode :: "string \<Rightarrow> string"

text \<open>
  The state the scripts act on: the requests made so far, the arguments of the calls
  of \<open>print\<close> so far (line ends left out), and the number of random draws.
\<close>

record world =
  sent :: "request list"
  stdout :: "string list"
  draws :: nat

definition print :: "string \<Rightarrow> world \<Rightarrow> world" where
  "print s w = w\<lparr>stdout := stdout w @ [s]\<rparr>"

definition requests_get ::
  "env \<Rightarrow> string \<Rightarrow> (string \<times> string) list \<Rightarrow> world \<Rightarrow> (exn + response) \<times> world" where
  "requests_get E u hs w =
     (let rq = \<lparr>meth = GET, req_url = u, req_headers = hs, json_payload = None\<rparr>;
          w' = w\<lparr>sent := sent w @ [rq]\<rparr>
      in case net E (sent w) rq of
           Raises msg \<Rightarrow> (Inl (RequestException msg None), w')
         | Reply r \<Rightarrow> (Inr r, w'))"

definition requests_put ::
  "env \<Rightarrow> string \<Rightarrow> (string \<times> string) list \<Rightarrow> json \<Rightarrow> world \<Rightarrow> (exn + response) \<times> world" where
  "requests_put E u hs j w =
     (let rq = \<lparr>meth = PUT, req_url = u, req_headers = hs, json_payload = Some j\<rparr>;
          w' = w\<lparr>sent := sent w @ [rq]\<rparr>
      in case net E (sent w) rq of
           Raises msg \<Rightarrow> (Inl (RequestException msg None), w')
         | Reply r \<Rightarrow> (Inr r, w'))"

text \<open>\<open>Response.raise_for_status\<close>: an \<open>HTTPError\<close> for a status from 400 to 599.\<close>

definition raise_for_status :: "response \<Rightarrow> exn + unit" where
  "raise_for_status r =
     (if 400 \<le> status_code r \<and> status_code r < 500 then
        Inl (RequestException
               (str_int (status_code r) @ '' Client Error: '' @ reason r @
                '' for url: '' @ resp_url r) (Some r))
      else if 500 \<le> status_code r \<and> status_code r < 600 then
        Inl (RequestException
               (str_int (status_code r) @ '' Server Error: '' @ reason r @
                '' for url: '' @ resp_url r) (Some r))
      else Inr ())"

definition response_json :: "response \<Rightarrow> exn + json" where
  "response_json r =
     (case json_body r of Inl msg \<Rightarrow> Inl (RequestException msg None) | Inr j \<Rightarrow> Inr j)"

text \<open>\<open>data[k]\<close> with a string key.\<close>

fun getitem :: "json \<Rightarrow> string \<Rightarrow> exn + json" where
  "getitem (JObject kvs) k = (case map_of kvs k of None \<Rightarrow> Inl (KeyError k) | Some v \<Rightarrow> Inr v)"
| "getitem (JArray xs) k = Inl (TypeError ''list indices must be integers or slices, not str'')"
| "getitem (JString s) k = Inl (TypeError ''string indices must be integers'')"
| "getitem (JNumber n) k = Inl (TypeError ''object is not subscriptable'')"
| "getitem (JBool b) k = Inl (TypeError ''object is not subscriptable'')"
| "getitem JNull k = Inl (TypeError ''object is not subscriptable'')"

text \<open>\<open>for x in v\<close>: the items of a list, the keys of a dictionary, the characters of a string.\<close>

fun iterate :: "json \<Rightarrow> exn + json list" where
  "iterate (JArray xs) = Inr xs"
| "iterate (JObject kvs) = Inr (map (\<lambda>kv. JString (fst kv)) kvs)"
| "iterate (JString s) = Inr (map (\<lambda>c. JString [c]) s)"
| "iterate (JNumber n) = Inl (TypeError ''object is not iterable'')"
| "iterate (JBool b) = Inl (TypeError ''object is not iterable'')"
| "iterate JNull = Inl (TypeError ''object is not iterable'')"

section \<open>GitHubSecretsManager (the same class in both scripts)\<close>

record manager =
  token :: string
  owner :: string
  repo :: string
  base_url :: string
  headers :: "(string \<times> string) list"

definition GitHubSecretsManager :: "string \<Rightarrow> string \<Rightarrow> string \<Rightarrow> manager" where
  "GitHubSecretsManager tok own rep =
     \<lparr>token = tok, owner = own, repo = rep,
      base_url = ''https://api.github.com/repos/'' @ own @ ''/'' @ rep,
      headers = [(''Authorization'', ''Bearer '' @ tok),
                 (''Accept'', ''application/vnd.github.v3+json''),
                 (''X-GitHub-Api-Version'', ''2022-11-28'')]\<rparr>"

subsection \<open>\<open>get_public_key\<close>\<close>

text \<open>The body of the \<open>try\<close>; the 404 branch raises a plain \<open>Exception\<close>.\<close>

definition get_public_key_try :: "env \<Rightarrow> manager \<Rightarrow> world \<Rightarrow> (exn + json \<times> json) \<times> world" where
  "get_public_key_try E m w =
     (case requests_get E (base_url m @ ''/actions/secrets/public-key'') (headers m) w of
        (Inl e, w1) \<Rightarrow> (Inl e, w1)
      | (Inr rsp, w1) \<Rightarrow>
          if status_code rsp = 404 then
            (Inl (Exception ''Cannot access repository secrets''),
             print (''   - Token doesn'' @ [CHR 0x27] @ ''t have '' @ [CHR 0x27] @ ''repo'' @
                    [CHR 0x27] @ '' scope'')
               (print ''   - GitHub Actions is not enabled for this repository''
                  (print (''   - Repository doesn'' @ [CHR 0x27] @ ''t exist or you don'' @
                          [CHR 0x27] @ ''t have access'')
                     (print (cross_mark @ '' Unable to access repository secrets. Possible causes:'')
                        w1))))
          else
            (case raise_for_status rsp of
               Inl e \<Rightarrow> (Inl e, w1)
             | Inr u \<Rightarrow>
                 (case response_json rsp of
                    Inl e \<Rightarrow> (Inl e, w1)
                  | Inr data \<Rightarrow>
                      (case getitem data ''key'' of
                         Inl e \<Rightarrow> (Inl e, w1)
                       | Inr k \<Rightarrow>
                           (case getitem data ''key_id'' of
                              Inl e \<Rightarrow> (Inl e, w1)
                            | Inr kid \<Rightarrow> (Inr (k, kid), w1))))))"

text \<open>
  \<open>except requests.exceptions.RequestException as e\<close>: print and raise again. Any
  other exception passes through untouched.
\<close>

definition get_public_key :: "env \<Rightarrow> manager \<Rightarrow> world \<Rightarrow> (exn + json \<times> json) \<times> world" where
  "get_public_key E m w =
     (case get_public_key_try E m w of
        (Inr kk, w1) \<Rightarrow> (Inr kk, w1)
      | (Inl e, w1) \<Rightarrow>
          (case e of
             RequestException msg ro \<Rightarrow>
               (let w2 = print (cross_mark @ '' Failed to get public key: '' @ str_exn e) w1
                in case ro of
                     None \<Rightarrow> (Inl e, w2)
                   | Some rsp \<Rightarrow>
                       (Inl e,
                        print (''   Response: '' @ body_text rsp)
                          (print (''   Status: '' @ str_int (status_code rsp)) w2)))
           | _ \<Rightarrow> (Inl e, w1)))"

subsection \<open>\<open>encrypt_secret\<close>\<close>

text \<open>
  \<open>secret_value.encode("utf-8")\<close> and the final \<open>decode("utf-8")\<close> are the identity on
  UTF-8 text.
\<close>

definition encrypt_secret :: "env \<Rightarrow> json \<Rightarrow> string \<Rightarrow> world \<Rightarrow> (exn + string) \<times> world" where
  "encrypt_secret E public_key secret_value w =
     (case b64decode E public_key of
        Inl e \<Rightarrow> (Inl e, w)
      | Inr public_key_bytes \<Rightarrow>
          (case PublicKey E public_key_bytes of
             Inl e \<Rightarrow> (Inl e, w)
           | Inr public_key_obj \<Rightarrow>
               (Inr (b64encode E (sealed_box_encrypt E (draws w) public_key_obj secret_value)),
                w\<lparr>draws := draws w + 1\<rparr>)))"

subsection \<open>\<open>set_secret\<close>\<close>

definition secret_payload :: "string \<Rightarrow> json \<Rightarrow> json" where
  "secret_payload encrypted_value key_id =
     JObject [(''encrypted_value'', JString encrypted_value), (''key_id'', key_id)]"

definition set_secret_try ::
  "env \<Rightarrow> manager \<Rightarrow> string \<Rightarrow> string \<Rightarrow> world \<Rightarrow> (exn + bool) \<times> world" where
  "set_secret_try E m name val w =
     (case get_public_key E m w of
        (Inl e, w1) \<Rightarrow> (Inl e, w1)
      | (Inr (public_key, key_id), w1) \<Rightarrow>
          (case encrypt_secret E public_key val w1 of
             (Inl e, w2) \<Rightarrow> (Inl e, w2)
           | (Inr encrypted_value, w2) \<Rightarrow>
               (case requests_put E (base_url m @ ''/actions/secrets/'' @ name) (headers m)
                       (secret_payload encrypted_value key_id) w2 of
                  (Inl e, w3) \<Rightarrow> (Inl e, w3)
                | (Inr rsp, w3) \<Rightarrow>
                    if status_code rsp = 404 then
                      (Inr False,
                       print ([CHR 0x0A] @ cross_mark @ '' Failed to set secret '' @ name @
                              '': Repository or Actions not accessible'') w3)
                    else
                      (case raise_for_status rsp of
                         Inl e \<Rightarrow> (Inl e, w3)
                       | Inr u \<Rightarrow> (Inr True, w3)))))"

text \<open>\<open>except Exception as e\<close>: every exception of the model is caught here.\<close>

definition set_secret :: "env \<Rightarrow> manager \<Rightarrow> string \<Rightarrow> string \<Rightarrow> world \<Rightarrow> bool \<times> world" where
  "set_secret E m name val w =
     (case set_secret_try E m name val w of
        (Inr b, w1) \<Rightarrow> (b, w1)
      | (Inl e, w1) \<Rightarrow>
          (False,
           print ([CHR 0x0A] @ cross_mark @ '' Failed to set secret '' @ name @ '': '' @
                  str_exn e) w1))"

subsection \<open>\<open>list_secrets\<close>\<close>

text \<open>The list comprehension: \<open>secret["name"]\<close> for each item, stopping at the first error.\<close>

fun names_of :: "json list \<Rightarrow> exn + json list" where
  "names_of [] = Inr []"
| "names_of (secret # rest) =
     (case getitem secret ''name'' of
        Inl e \<Rightarrow> Inl e
      | Inr n \<Rightarrow> (case names_of rest of Inl e \<Rightarrow> Inl e | Inr ns \<Rightarrow> Inr (n # ns)))"

definition list_secrets :: "env \<Rightarrow> manager \<Rightarrow> world \<Rightarrow> (exn + json list) \<times> world" where
  "list_secrets E m w =
     (case requests_get E (base_url m @ ''/actions/secrets'') (headers m) w of
        (Inl e, w1) \<Rightarrow> (Inl e, w1)
      | (Inr rsp, w1) \<Rightarrow>
          (case raise_for_status rsp of
             Inl e \<Rightarrow> (Inl e, w1)
           | Inr u \<Rightarrow>
               (case response_json rsp of
                  Inl e \<Rightarrow> (Inl e, w1)
                | Inr data \<Rightarrow>
                    (case getitem data ''secrets'' of
                       Inl e \<Rightarrow> (Inl e, w1)
                     | Inr secrets \<Rightarrow>
                         (case iterate secrets of
                            Inl e \<Rightarrow> (Inl e, w1)
                          | Inr items \<Rightarrow>
                              (case names_of items of
                                 Inl e \<Rightarrow> (Inl e, w1)
                               | Inr ns \<Rightarrow> (Inr ns, w1)))))))"

section \<open>The batch loops of the two scripts\<close>

text \<open>More printed symbols, as UTF-8: U+1F504, U+2022 and U+1F4DD.\<close>

definition arrows_sign :: string where
  "arrows_sign = [CHR 0xF0, CHR 0x9F, CHR 0x94, CHR 0x84]"

definition bullet :: string where
  "bullet = [CHR 0xE2, CHR 0x80, CHR 0xA2]"

definition memo_sign :: string where
  "memo_sign = [CHR 0xF0, CHR 0x9F, CHR 0x93, CHR 0x9D]"

fun print_names :: "string list \<Rightarrow> world \<Rightarrow> world" where
  "print_names [] w = w"
| "print_names (name # rest) w = print_names rest (print (''  '' @ bullet @ '' '' @ name) w)"

subsection \<open>set\_gh\_secrets.py, \<open>main\<close>: the sync loop\<close>



subsection \<open>set\_cert\_secrets.py: \<open>read_certificate_files\<close> and the upload loop\<close>

text \<open>
  The files under the certificate directory: no entry for a path that does not exist,
  \<open>Inl\<close> the error message when opening or reading raises, \<open>Inr\<close> the content.
  \<open>cert_dir / filename\<close> is taken as the two joined by a slash.
\<close>

type_synonym files = "string \<rightharpoonup> string + string"

definition read_one ::
  "files \<Rightarrow> string \<Rightarrow> string \<times> string \<Rightarrow> dict \<times> world \<Rightarrow> dict \<times> world" where
  "read_one fs cert_dir entry st =
     (case (entry, st) of
        ((secret_name, filename), (certificates, w)) \<Rightarrow>
          (let file_path = cert_dir @ ''/'' @ filename
           in case fs file_path of
                None \<Rightarrow>
                  (certificates,
                   print (cross_mark @ '' Certificate file not found: '' @ file_path) w)
              | Some (Inl msg) \<Rightarrow>
                  (certificates,
                   print (cross_mark @ '' Failed to read '' @ filename @ '': '' @ msg) w)
              | Some (Inr raw) \<Rightarrow>
                  (let content = strip raw
                   in (AList.update secret_name content certificates,
                       print (check_mark @ '' Read '' @ filename @ '' ('' @
                              str_nat (length content) @ '' characters)'') w))))"

definition read_certificate_files :: "files \<Rightarrow> string \<Rightarrow> world \<Rightarrow> dict \<times> world" where
  "read_certificate_files fs cert_dir w =
     foldl (\<lambda>st entry. read_one fs cert_dir entry st) ([], w)
       [(''LETSENCRYPT_CERT'', ''letsencrypt-server.crt''),
        (''LETSENCRYPT_KEY'', ''letsencrypt-server.key'')]"

text \<open>The \<open>for\<close> loop over \<open>certificates.items()\<close>: every entry goes to \<open>set_secret\<close>.\<close>

fun upload_certificates :: "env \<Rightarrow> manager \<Rightarrow> dict \<Rightarrow> nat \<Rightarrow> world \<Rightarrow> nat \<times> world" where
  "upload_certificates E m [] success_count w = (success_count, w)"
| "upload_certificates E m ((name, content) # rest) success_count w =
     (case set_secret E m name content (print (''  Setting '' @ name @ ''...'') w) of
        (ok, w1) \<Rightarrow>
          if ok then upload_certificates E m rest (success_count + 1) (print check_mark w1)
          else upload_certificates E m rest success_count (print cross_mark w1))"

fun print_created :: "string list \<Rightarrow> world \<Rightarrow> world" where
  "print_created [] w = w"
| "print_created (name # rest) w =
     print_created rest
       (print (''  '' @ bullet @ '' '' @ name @
               '' - Can be used in GitHub Actions as ${ secrets.'' @ name @ '' }'') w)"

text \<open>
  The run of \<open>main\<close> from reading the directory to the end, without \<open>--list\<close> and
  \<open>--dry-run\<close>; \<open>None\<close> is \<open>sys.exit(1)\<close> when no file could be read.
\<close>

definition upload_main ::
  "env \<Rightarrow> manager \<Rightarrow> files \<Rightarrow> string \<Rightarrow> world \<Rightarrow> (nat \<times> nat) option \<times> world" where
  "upload_main E m fs cert_dir w =
     (case read_certificate_files fs cert_dir w of
        (certificates, w1) \<Rightarrow>
          if certificates = [] then
            (None, print (cross_mark @ '' No certificate files found or readable'') w1)
          else
            (let w2 = print ([CHR 0x0A] @ arrows_sign @ '' Found '' @
                             str_nat (length certificates) @
                             '' certificate files to upload:'') w1;
                 w3 = print_names (map fst certificates) w2;
                 w4 = print ([CHR 0x0A] @ arrows_sign @ '' Uploading certificates to GitHub...'') w3
             in case upload_certificates E m certificates 0 w4 of
                  (success_count, w5) \<Rightarrow>
                    (let w6 = print ([CHR 0x0A] @ check_mark @ '' Successfully uploaded '' @
                                     str_nat success_count @ ''/'' @
                                     str_nat (length certificates) @ '' certificates'') w5
                     in (Some (success_count, length certificates),
                         if success_count > 0 then
                           print_created (map fst certificates)
                             (print ([CHR 0x0A] @ memo_sign @ '' Secrets created:'') w6)
                         else w6))))"

subsection \<open>The calls of \<open>set_secret\<close> a loop makes\<close>

text \<open>
  For each loop, the sequence of its calls of \<open>set_secret\<close> in order, each with the
  name and the value passed and the boolean returned, in the world the loop has
  reached at that call.
\<close>

fun sync_calls :: "env \<Rightarrow> manager \<Rightarrow> dict \<Rightarrow> world \<Rightarrow> (string \<times> string \<times> bool) list" where
  "sync_calls E m [] w = []"
| "sync_calls E m ((name, val) # rest) w =
     (if val = [] then
        sync_calls E m rest (print (warning_sign @ ''  Skipping '' @ name @ '' (empty value)'') w)
      else
        (case set_secret E m name val (print (''  Setting '' @ name @ ''...'') w) of
           (ok, w1) \<Rightarrow>
             (name, val, ok) #
             sync_calls E m rest (print (if ok then check_mark else cross_mark) w1)))"

fun upload_calls :: "env \<Rightarrow> manager \<Rightarrow> dict \<Rightarrow> world \<Rightarrow> (string \<times> string \<times> bool) list" where
  "upload_calls E m [] w = []"
| "upload_calls E m ((name, content) # rest) w =
     (case set_secret E m name content (print (''  Setting '' @ name @ ''...'') w) of
        (ok, w1) \<Rightarrow>
          (name, content, ok) #
          upload_calls E m rest (print (if ok then check_mark else cross_mark) w1))"

section \<open>A concrete environment for running the model\<close>

text \<open>
  Stand-ins for the libraries: base64 as the identity on strings (decoding rejects a
  JSON value that is not a string), every byte string accepted as a key, and a seal
  that writes the draw, the key and the plaintext side by side, so that a sealed value
  shows what went into it.
\<close>

definition stub_env :: "(request list \<Rightarrow> request \<Rightarrow> outcome) \<Rightarrow> env" where
  "stub_env n =
     \<lparr>net = n,
      b64decode = (\<lambda>j. case j of JString s \<Rightarrow> Inr s
                            | _ \<Rightarrow> Inl (TypeError ''argument should be a bytes-like object or ASCII string'')),
      PublicKey = (\<lambda>b. Inr b),
      sealed_box_encrypt = (\<lambda>n pk msg. str_nat n @ '':'' @ pk @ '':'' @ msg),
      b64encode = (\<lambda>b. b)\<rparr>"

definition reply :: "int \<Rightarrow> string + json \<Rightarrow> response" where
  "reply st j = \<lparr>status_code = st, reason = [], resp_url = [], body_text = [], json_body = j\<rparr>"

definition key_body :: "string \<Rightarrow> string \<Rightarrow> string + json" where
  "key_body kid k = Inr (JObject [(''key_id'', JString kid), (''key'', JString k)])"

text \<open>
  A remote side whose key endpoint answers \<open>key_of\<close> of the requests seen so far and
  whose other endpoints answer with the status \<open>status_of\<close> gives to the URL.
\<close>

definition scripted_net ::
  "(request list \<Rightarrow> outcome) \<Rightarrow> (string \<Rightarrow> int) \<Rightarrow> request list \<Rightarrow> request \<Rightarrow> outcome" where
  "scripted_net key_of status_of hist rq =
     (if meth rq = GET then key_of hist else Reply (reply (status_of (req_url rq)) (Inr JNull)))"

definition octo :: manager where
  "octo = GitHubSecretsManager ''t0k3n'' ''octo'' ''infra''"

definition world0 :: world where
  "world0 = \<lparr>sent = [], stdout = [], draws = 0\<rparr>"

section \<open>Notions used to state the properties\<close>

text \<open>The three requests the manager makes.\<close>

definition key_request :: "manager \<Rightarrow> request" where
  "key_request m =
     \<lparr>meth = GET, req_url = base_url m @ ''/actions/secrets/public-key'',
      req_headers = headers m, json_payload = None\<rparr>"

definition put_request :: "manager \<Rightarrow> string \<Rightarrow> json \<Rightarrow> request" where
  "put_request m name j =
     \<lparr>meth = PUT, req_url = base_url m @ ''/actions/secrets/'' @ name,
      req_headers = headers m, json_payload = Some j\<rparr>"

definition list_request :: "manager \<Rightarrow> request" where
  "list_request m =
     \<lparr>meth = GET, req_url = base_url m @ ''/actions/secrets'',
      req_headers = headers m, json_payload = None\<rparr>"

text \<open>
  The status of the answer to the last request made, when that request is a PUT and
  the remote side answered it.
\<close>

definition put_status :: "env \<Rightarrow> world \<Rightarrow> int option" where
  "put_status E w =
     (case rev (sent w) of
        [] \<Rightarrow> None
      | rq # before \<Rightarrow>
          if meth rq = PUT then
            (case net E (rev before) rq of
               Raises msg \<Rightarrow> None
             | Reply r \<Rightarrow> Some (status_code r))
          else None)"




text \<open>The value the second pass of the parser stores for a raw value.\<close>

definition resolved :: "(string \<rightharpoonup> string) \<Rightarrow> dict \<Rightarrow> string \<Rightarrow> string" where
  "resolved environ simple_vars var_value =
     (if startswith var_value ''$'' then
        (case map_of simple_vars (drop 1 var_value) of
           Some v \<Rightarrow> v
         | None \<Rightarrow> (case environ (drop 1 var_value) of
                      None \<Rightarrow> var_value
                    | Some e \<Rightarrow> if e \<noteq> [] then e else var_value))
      else var_value)"

text \<open>Two env files: a quoted value with a reference to it, and a chain of references.\<close>

definition foo_baz_file :: string where
  "foo_baz_file =
     ''export FOO='' @ [CHR 0x22] @ ''bar'' @ [CHR 0x22, CHR 0x0A] @ ''export BAZ=$FOO''"

definition chain_file :: string where
  "chain_file =
     ''export A=$B'' @ [CHR 0x0A] @ ''export B=$C'' @ [CHR 0x0A] @
     ''export C=val'' @ [CHR 0x0A] @ ''export D=x$C'' @ [CHR 0x0A]"

section \<open>Scenarios\<close>

text \<open>Remote sides and inputs on which the model is run.\<close>

definition steady_key :: "request list \<Rightarrow> outcome" where
  "steady_key hist = Reply (reply 200 (key_body ''kid-1'' ''PUBKEY''))"

definition rotating_key :: "request list \<Rightarrow> outcome" where
  "rotating_key hist =
     Reply (reply 200 (key_body (''kid-'' @ str_nat (length hist))
                                (''PUBKEY-'' @ str_nat (length hist))))"

definition env_put :: "int \<Rightarrow> env" where
  "env_put s = stub_env (scripted_net steady_key (\<lambda>u. s))"

definition env_key_status :: "int \<Rightarrow> env" where
  "env_key_status s =
     stub_env (scripted_net (\<lambda>hist. Reply (reply s (Inl ''Expecting value''))) (\<lambda>u. 201))"

definition env_offline :: env where
  "env_offline = stub_env (\<lambda>hist rq. Raises ''Connection refused'')"

definition env_bad_key :: env where
  "env_bad_key =
     stub_env (scripted_net
       (\<lambda>hist. Reply (reply 200 (Inr (JObject [(''key_id'', JString ''kid-1''),
                                                (''key'', JNumber 7)]))))
       (\<lambda>u. 201))"

definition env_rotating :: env where
  "env_rotating = stub_env (scripted_net rotating_key (\<lambda>u. 201))"

definition secrets_listing :: response where
  "secrets_listing =
     reply 200 (Inr (JObject
       [(''total_count'', JNumber 2),
        (''secrets'',
         JArray [JObject [(''name'', JString ''ZETA''), (''created_at'', JString ''2024-01-01'')],
                 JObject [(''name'', JString ''ALPHA''), (''updated_at'', JString ''2024-02-02'')]])]))"

definition env_listing :: env where
  "env_listing = stub_env (\<lambda>hist rq. Reply secrets_listing)"

definition env_list_status :: "int \<Rightarrow> env" where
  "env_list_status s = stub_env (\<lambda>hist rq. Reply (reply s (Inr JNull)))"


definition env_second_fails :: env where
  "env_second_fails =
     stub_env (scripted_net steady_key
       (\<lambda>u. if u = base_url octo @ ''/actions/secrets/B'' then 500 else 201))"

definition empty_cert_files :: files where
  "empty_cert_files =
     map_of [(''secrets/certs/letsencrypt-server.crt'', Inr [CHR 0x0A]),
             (''secrets/certs/letsencrypt-server.key'', Inr (''KEYDATA'' @ [CHR 0x0A]))]"

section \<open>Properties of the parser\<close>

lemmas parse_defs = parse_env_file_def file_lines_def first_pass_def collect_line_def strip_def
  isspace_def startswith_def endswith_def match_export_def is_name_char_def remove_quotes_def
  slice_1_m1_def

lemma second_pass_step:
  "\<exists>out'. second_pass environ sv ((n, v) # items) (vars, out) =
     second_pass environ sv items (AList.update n (resolved environ sv v) vars, out')"
  by (auto simp: resolved_def Let_def split: option.splits)

lemma second_pass_map_of:
  "distinct (map fst items) \<Longrightarrow>
   map_of (fst (second_pass environ sv items (vars, out))) k =
     (case map_of items k of Some v \<Rightarrow> Some (resolved environ sv v) | None \<Rightarrow> map_of vars k)"
proof (induction items arbitrary: vars out)
  case Nil
  then show ?case by simp
next
  case (Cons a items)
  obtain n v where a: "a = (n, v)" by (cases a)
  obtain out' where st: "second_pass environ sv ((n, v) # items) (vars, out) =
     second_pass environ sv items (AList.update n (resolved environ sv v) vars, out')"
    using second_pass_step by blast
  have d: "distinct (map fst items)" and nin: "n \<notin> fst ` set items"
    using Cons.prems a by auto
  have nk: "map_of items n = None" using nin by (simp add: map_of_eq_None_iff)
  show ?case
    unfolding a st Cons.IH[OF d]
    using nk by (auto simp: update_conv' split: option.splits)
qed

lemma distinct_collect_line:
  "distinct (map fst sv) \<Longrightarrow> distinct (map fst (collect_line sv l))"
  by (auto simp: collect_line_def Let_def distinct_update split: option.splits)

lemma distinct_foldl_collect:
  "distinct (map fst sv) \<Longrightarrow> distinct (map fst (foldl collect_line sv ls))"
  by (induction ls arbitrary: sv) (auto simp: distinct_collect_line)

lemma distinct_first_pass: "distinct (map fst (first_pass ls))"
  by (simp add: first_pass_def distinct_foldl_collect)

lemma parse_env_file_lookup:
  "map_of (fst (parse_env_file environ content)) k =
     map_option (resolved environ (first_pass (file_lines content)))
       (map_of (first_pass (file_lines content)) k)"
  by (simp add: parse_env_file_def Let_def second_pass_map_of[OF distinct_first_pass]
      split: option.splits)

lemma first_pass_chain:
  "first_pass (file_lines chain_file) =
     [(''A'', ''$B''), (''B'', ''$C''), (''C'', ''val''), (''D'', ''x$C'')]"
  by (simp add: chain_file_def parse_defs)

text \<open>
  C6. For the file \<open>export FOO="bar"\<close> followed by \<open>export BAZ=$FOO\<close>, whatever the
  process environment holds, \<open>parse_env_file\<close> returns the dictionary with \<open>FOO\<close>
  bound to \<open>bar\<close> (quotes removed) and \<open>BAZ\<close> bound to \<open>bar\<close> (the reference
  resolved from the earlier line), in that order and with nothing else.
\<close>

theorem parse_env_file_foo_baz:
  "fst (parse_env_file environ foo_baz_file) = [(''FOO'', ''bar''), (''BAZ'', ''bar'')] \<and>
   map_of (fst (parse_env_file environ foo_baz_file)) ''FOO'' = Some ''bar'' \<and>
   map_of (fst (parse_env_file environ foo_baz_file)) ''BAZ'' = Some ''bar''"
  by (simp add: foo_baz_file_def parse_defs)

theorem parse_env_file_foo_baz_witness:
  "parse_env_file Map.empty foo_baz_file = ([(''FOO'', ''bar''), (''BAZ'', ''bar'')], [])"
  using parse_env_file_foo_baz[of Map.empty]
  by (simp add: foo_baz_file_def parse_defs)

text \<open>
  C7. For the file \<open>export BAZ=$UNDEFINED\<close>, when \<open>UNDEFINED\<close> is not in the process
  environment (or is there with an empty value), \<open>parse_env_file\<close> does not fail: it
  binds \<open>BAZ\<close> to the text \<open>$UNDEFINED\<close>, dollar sign included, and prints one
  warning naming the reference and the variable.
\<close>

theorem parse_env_file_unresolved:
  assumes "environ ''UNDEFINED'' = None \<or> environ ''UNDEFINED'' = Some []"
  shows "parse_env_file environ ''export BAZ=$UNDEFINED'' =
           ([(''BAZ'', ''$UNDEFINED'')],
            [warning_sign @ ''  Warning: Unresolved variable reference $UNDEFINED in BAZ''])"
  using assms by (auto simp add: parse_defs unresolved_warning_def)

theorem parse_env_file_unresolved_witness:
  "parse_env_file Map.empty ''export BAZ=$UNDEFINED'' =
     ([(''BAZ'', ''$UNDEFINED'')],
      [warning_sign @ ''  Warning: Unresolved variable reference $UNDEFINED in BAZ''])"
  using parse_env_file_unresolved[of Map.empty] by simp

text \<open>
  C10. Reference resolution is single-level and whole-value only. Let \<open>v\<close> be the raw
  value the first pass holds for \<open>name\<close>. If \<open>v\<close> does not start with a dollar sign
  it is the final value, wherever else a dollar sign stands in it. If it does and the
  rest of \<open>v\<close> is a name the first pass holds, the final value is that name's raw
  value, itself not resolved any further.
\<close>

theorem reference_resolution_single_level:
  assumes "map_of (first_pass (file_lines content)) name = Some v"
  shows "(\<not> startswith v ''$'' \<longrightarrow>
            map_of (fst (parse_env_file environ content)) name = Some v) \<and>
         (\<forall>raw. startswith v ''$'' \<and>
                map_of (first_pass (file_lines content)) (drop 1 v) = Some raw \<longrightarrow>
            map_of (fst (parse_env_file environ content)) name = Some raw)"
  using assms by (simp add: parse_env_file_lookup resolved_def)

theorem reference_resolution_single_level_witness:
  "map_of (first_pass (file_lines chain_file)) ''A'' = Some ''$B'' \<and>
   map_of (first_pass (file_lines chain_file)) ''B'' = Some ''$C'' \<and>
   map_of (first_pass (file_lines chain_file)) ''C'' = Some ''val'' \<and>
   map_of (fst (parse_env_file Map.empty chain_file)) ''A'' = Some ''$C'' \<and>
   map_of (fst (parse_env_file Map.empty chain_file)) ''D'' = Some ''x$C''"
  using reference_resolution_single_level[of chain_file "''A''" "''$B''" Map.empty]
    reference_resolution_single_level[of chain_file "''D''" "''x$C''" Map.empty]
  by (simp add: first_pass_chain startswith_def)

section \<open>Properties of the secrets client\<close>

lemma sent_print [simp]: "sent (print s w) = sent w"
  by (simp add: print_def)

lemma draws_print [simp]: "draws (print s w) = draws w"
  by (simp add: print_def)

lemma stdout_print [simp]: "stdout (print s w) = stdout w @ [s]"
  by (simp add: print_def)

lemma get_public_key_try_sent:
  "sent (snd (get_public_key_try E m w)) = sent w @ [key_request m]"
  by (auto simp: get_public_key_try_def requests_get_def key_request_def Let_def
      split: outcome.splits sum.splits prod.splits)

lemma get_public_key_try_draws:
  "draws (snd (get_public_key_try E m w)) = draws w"
  by (auto simp: get_public_key_try_def requests_get_def key_request_def Let_def
      split: outcome.splits sum.splits prod.splits)

lemma get_public_key_fst:
  "fst (get_public_key E m w) = fst (get_public_key_try E m w)"
  by (auto simp: get_public_key_def Let_def split: prod.splits sum.splits exn.splits option.splits)

lemma get_public_key_sent:
  "sent (snd (get_public_key E m w)) = sent w @ [key_request m]"
  using get_public_key_try_sent[of E m w]
  by (auto simp: get_public_key_def Let_def split: prod.splits sum.splits exn.splits option.splits)

lemma get_public_key_draws:
  "draws (snd (get_public_key E m w)) = draws w"
  using get_public_key_try_draws[of E m w]
  by (auto simp: get_public_key_def Let_def split: prod.splits sum.splits exn.splits option.splits)

lemma get_public_key_try_fst:
  "fst (get_public_key_try E m w) =
     (case net E (sent w) (key_request m) of
        Raises msg \<Rightarrow> Inl (RequestException msg None)
      | Reply rsp \<Rightarrow>
          if status_code rsp = 404 then Inl (Exception ''Cannot access repository secrets'')
          else (case raise_for_status rsp of
                  Inl e \<Rightarrow> Inl e
                | Inr u \<Rightarrow>
                    (case response_json rsp of
                       Inl e \<Rightarrow> Inl e
                     | Inr data \<Rightarrow>
                         (case getitem data ''key'' of
                            Inl e \<Rightarrow> Inl e
                          | Inr k \<Rightarrow>
                              (case getitem data ''key_id'' of
                                 Inl e \<Rightarrow> Inl e
                               | Inr kid \<Rightarrow> Inr (k, kid))))))"
  by (auto simp: get_public_key_try_def requests_get_def key_request_def Let_def
      split: outcome.splits sum.splits prod.splits)

lemma raise_for_status_Inl:
  "raise_for_status r = Inl e \<Longrightarrow>
     400 \<le> status_code r \<and> status_code r < 600 \<and> (\<exists>msg. e = RequestException msg (Some r))"
  by (auto simp: raise_for_status_def split: if_splits)

lemma raise_for_status_Inr:
  "(raise_for_status r = Inr u) = (\<not> (400 \<le> status_code r \<and> status_code r < 600))"
  by (auto simp: raise_for_status_def)

text \<open>The key material a call obtains, read off the remote side's answer.\<close>

lemma get_public_key_Inr:
  "fst (get_public_key E m w) = Inr (k, kid) \<longleftrightarrow>
     (\<exists>rsp data. net E (sent w) (key_request m) = Reply rsp \<and>
        \<not> (400 \<le> status_code rsp \<and> status_code rsp < 600) \<and>
        json_body rsp = Inr data \<and> getitem data ''key'' = Inr k \<and>
        getitem data ''key_id'' = Inr kid)"
  unfolding get_public_key_fst get_public_key_try_fst
  by (auto simp: raise_for_status_Inr response_json_def
      split: outcome.splits sum.splits dest: raise_for_status_Inl)

text \<open>set_secret in terms of its three steps.\<close>

lemma encrypt_secret_sent: "sent (snd (encrypt_secret E k v w)) = sent w"
  by (auto simp: encrypt_secret_def split: sum.splits)

lemma encrypt_secret_Inr:
  "fst (encrypt_secret E k v w) = Inr ev \<longleftrightarrow>
     (\<exists>kb pk. b64decode E k = Inr kb \<and> PublicKey E kb = Inr pk \<and>
        ev = b64encode E (sealed_box_encrypt E (draws w) pk v))"
  by (auto simp: encrypt_secret_def split: sum.splits)

lemma set_secret_key_failure:
  assumes "fst (get_public_key E m w) = Inl e"
  shows "\<not> fst (set_secret E m name val w)"
    and "sent (snd (set_secret E m name val w)) = sent w @ [key_request m]"
    and "stdout (snd (set_secret E m name val w)) =
           stdout (snd (get_public_key E m w)) @
           [[CHR 0x0A] @ cross_mark @ '' Failed to set secret '' @ name @ '': '' @ str_exn e]"
  using assms get_public_key_sent[of E m w]
  by (auto simp: set_secret_def set_secret_try_def split: prod.splits sum.splits)

lemma set_secret_encrypt_failure:
  assumes "fst (get_public_key E m w) = Inr (k, kid)"
    and "fst (encrypt_secret E k val (snd (get_public_key E m w))) = Inl e"
  shows "\<not> fst (set_secret E m name val w)"
    and "sent (snd (set_secret E m name val w)) = sent w @ [key_request m]"
    and "stdout (snd (set_secret E m name val w)) =
           stdout (snd (encrypt_secret E k val (snd (get_public_key E m w)))) @
           [[CHR 0x0A] @ cross_mark @ '' Failed to set secret '' @ name @ '': '' @ str_exn e]"
  using assms get_public_key_sent[of E m w]
    encrypt_secret_sent[of E k val "snd (get_public_key E m w)"]
  by (auto simp: set_secret_def set_secret_try_def split: prod.splits sum.splits)

lemma set_secret_put:
  assumes "fst (get_public_key E m w) = Inr (k, kid)"
    and "fst (encrypt_secret E k val (snd (get_public_key E m w))) = Inr ev"
  shows "sent (snd (set_secret E m name val w)) =
           sent w @ [key_request m, put_request m name (secret_payload ev kid)]"
    and "fst (set_secret E m name val w) \<longleftrightarrow>
           (\<exists>rsp. net E (sent w @ [key_request m]) (put_request m name (secret_payload ev kid)) =
                    Reply rsp \<and>
                  \<not> (400 \<le> status_code rsp \<and> status_code rsp < 600))"
    and "\<not> fst (set_secret E m name val w) \<Longrightarrow>
           \<exists>msg. last (stdout (snd (set_secret E m name val w))) =
             [CHR 0x0A] @ cross_mark @ '' Failed to set secret '' @ name @ '': '' @ msg"
  using assms get_public_key_sent[of E m w]
    encrypt_secret_sent[of E k val "snd (get_public_key E m w)"]
  by (auto simp: set_secret_def set_secret_try_def requests_put_def put_request_def Let_def
      raise_for_status_Inr
      split: prod.splits sum.splits outcome.splits if_splits dest: raise_for_status_Inl)

lemmas run_defs = set_secret_def set_secret_try_def get_public_key_def get_public_key_try_def
  requests_get_def requests_put_def encrypt_secret_def raise_for_status_def response_json_def
  print_def stub_env_def scripted_net_def reply_def key_body_def octo_def
  GitHubSecretsManager_def world0_def secret_payload_def Let_def put_status_def
  key_request_def put_request_def steady_key_def env_put_def env_key_status_def
  env_offline_def env_bad_key_def env_rotating_def rotating_key_def

lemma getitem_no_Exception: "getitem j k \<noteq> Inl (Exception s)"
  by (cases j) (auto split: option.splits)

lemma response_json_no_Exception: "response_json r \<noteq> Inl (Exception s)"
  by (auto simp: response_json_def split: sum.splits)

text \<open>
  C2. \<open>get_public_key\<close> raises a plain \<open>Exception\<close> exactly when the public-key endpoint
  answers with status 404, and then it is the one with the message
  \<open>Cannot access repository secrets\<close>. When the request itself fails, or the answer has
  another status from 400 to 599, it raises a \<open>RequestException\<close>. The two are
  different classes: the handler for \<open>RequestException\<close> does not catch the first.
\<close>

theorem get_public_key_error_kinds:
  "((\<exists>s. fst (get_public_key E m w) = Inl (Exception s)) \<longleftrightarrow>
      (\<exists>rsp. net E (sent w) (key_request m) = Reply rsp \<and> status_code rsp = 404)) \<and>
   (\<forall>rsp. net E (sent w) (key_request m) = Reply rsp \<and> status_code rsp = 404 \<longrightarrow>
      fst (get_public_key E m w) = Inl (Exception ''Cannot access repository secrets'')) \<and>
   (\<forall>msg. net E (sent w) (key_request m) = Raises msg \<longrightarrow>
      fst (get_public_key E m w) = Inl (RequestException msg None)) \<and>
   (\<forall>rsp. net E (sent w) (key_request m) = Reply rsp \<and> status_code rsp \<noteq> 404 \<and>
          400 \<le> status_code rsp \<and> status_code rsp < 600 \<longrightarrow>
      (\<exists>msg. fst (get_public_key E m w) = Inl (RequestException msg (Some rsp)))) \<and>
   (\<forall>s. \<not> is_RequestException (Exception s)) \<and>
   (\<forall>msg ro. is_RequestException (RequestException msg ro))"
proof -
  have a: "(\<exists>s. fst (get_public_key E m w) = Inl (Exception s)) \<longleftrightarrow>
      (\<exists>rsp. net E (sent w) (key_request m) = Reply rsp \<and> status_code rsp = 404)"
    unfolding get_public_key_fst get_public_key_try_fst
    by (auto simp: getitem_no_Exception response_json_no_Exception
        split: outcome.splits sum.splits dest: raise_for_status_Inl)
  have b: "\<forall>rsp. net E (sent w) (key_request m) = Reply rsp \<and> status_code rsp = 404 \<longrightarrow>
      fst (get_public_key E m w) = Inl (Exception ''Cannot access repository secrets'')"
    unfolding get_public_key_fst get_public_key_try_fst by simp
  have c: "\<forall>msg. net E (sent w) (key_request m) = Raises msg \<longrightarrow>
      fst (get_public_key E m w) = Inl (RequestException msg None)"
    unfolding get_public_key_fst get_public_key_try_fst by simp
  have d: "\<forall>rsp. net E (sent w) (key_request m) = Reply rsp \<and> status_code rsp \<noteq> 404 \<and>
          400 \<le> status_code rsp \<and> status_code rsp < 600 \<longrightarrow>
      (\<exists>msg. fst (get_public_key E m w) = Inl (RequestException msg (Some rsp)))"
    unfolding get_public_key_fst get_public_key_try_fst
    by (auto simp: raise_for_status_def)
  show ?thesis using a b c d by simp
qed

theorem get_public_key_error_kinds_witness:
  "fst (get_public_key (env_key_status 404) octo world0) =
     Inl (Exception ''Cannot access repository secrets'') \<and>
   fst (get_public_key (env_key_status 500) octo world0) =
     Inl (RequestException ''500 Server Error:  for url: ''
            (Some (reply 500 (Inl ''Expecting value'')))) \<and>
   fst (get_public_key env_offline octo world0) =
     Inl (RequestException ''Connection refused'' None) \<and>
   fst (get_public_key (env_put 201) octo world0) = Inr (JString ''PUBKEY'', JString ''kid-1'')"
  using get_public_key_error_kinds[of "env_key_status 404" octo world0]
  by (simp add: run_defs str_int_def str_nat.simps digit_char_def)

text \<open>
  C1. (amended) \<open>set_secret\<close> always returns a boolean. It returns true exactly when
  the last request it made is the PUT to the named-secret endpoint and the answer to it
  has a status outside 400 to 599, the statuses for which \<open>raise_for_status\<close> raises;
  so it returns false when the key fetch or the encryption raises. Whenever it returns
  false, the last line it printed is the diagnostic naming the secret.
\<close>

theorem set_secret_result:
  "(fst (set_secret E m name val w) \<longleftrightarrow>
      (\<exists>s. put_status E (snd (set_secret E m name val w)) = Some s \<and>
           \<not> (400 \<le> s \<and> s < 600))) \<and>
   (\<not> fst (set_secret E m name val w) \<longrightarrow>
      (\<exists>msg. last (stdout (snd (set_secret E m name val w))) =
         [CHR 0x0A] @ cross_mark @ '' Failed to set secret '' @ name @ '': '' @ msg)) \<and>
   (\<forall>e. fst (get_public_key E m w) = Inl e \<longrightarrow> \<not> fst (set_secret E m name val w)) \<and>
   (\<forall>k kid e. fst (get_public_key E m w) = Inr (k, kid) \<and>
        fst (encrypt_secret E k val (snd (get_public_key E m w))) = Inl e \<longrightarrow>
      \<not> fst (set_secret E m name val w))"
proof (cases "fst (get_public_key E m w)")
  case (Inl e)
  note kf = set_secret_key_failure[OF Inl, of name val]
  have "put_status E (snd (set_secret E m name val w)) = None"
    by (simp add: put_status_def kf(2) key_request_def)
  then show ?thesis using kf(1) kf(3) Inl by simp
next
  case (Inr kk)
  obtain k kid where kk: "kk = (k, kid)" by (cases kk)
  note key = Inr[unfolded kk]
  show ?thesis
  proof (cases "fst (encrypt_secret E k val (snd (get_public_key E m w)))")
    case (Inl e)
    note ef = set_secret_encrypt_failure[OF key Inl, of name]
    have "put_status E (snd (set_secret E m name val w)) = None"
      by (simp add: put_status_def ef(2) key_request_def)
    then show ?thesis using ef(1) ef(3) key by simp
  next
    case (Inr ev)
    note pt = set_secret_put[OF key Inr, of name]
    have ps: "put_status E (snd (set_secret E m name val w)) =
        (case net E (sent w @ [key_request m]) (put_request m name (secret_payload ev kid)) of
           Raises msg \<Rightarrow> None | Reply r \<Rightarrow> Some (status_code r))"
      by (simp add: put_status_def pt(1)) (simp add: put_request_def)
    have a: "fst (set_secret E m name val w) \<longleftrightarrow>
      (\<exists>s. put_status E (snd (set_secret E m name val w)) = Some s \<and>
           \<not> (400 \<le> s \<and> s < 600))"
      unfolding ps pt(2) by (auto split: outcome.splits)
    show ?thesis using a pt(3) key Inr by auto
  qed
qed

theorem set_secret_result_witness:
  "fst (set_secret (env_put 201) octo ''FOO'' ''bar'' world0) \<and>
   put_status (env_put 201) (snd (set_secret (env_put 201) octo ''FOO'' ''bar'' world0)) = Some 201 \<and>
   \<not> fst (set_secret (env_put 500) octo ''FOO'' ''bar'' world0) \<and>
   put_status (env_put 500) (snd (set_secret (env_put 500) octo ''FOO'' ''bar'' world0)) = Some 500 \<and>
   \<not> fst (set_secret (env_key_status 404) octo ''FOO'' ''bar'' world0) \<and>
   \<not> fst (set_secret env_bad_key octo ''FOO'' ''bar'' world0) \<and>
   \<not> fst (set_secret env_offline octo ''FOO'' ''bar'' world0)"
  using set_secret_result[of "env_put 201" octo "''FOO''" "''bar''" world0]
    set_secret_result[of "env_put 500" octo "''FOO''" "''bar''" world0]
  by (simp add: run_defs)

text \<open>
  The claim as first stated asks for a 2xx status; a PUT answered with 304 still gives true.
\<close>

theorem set_secret_true_on_304:
  "fst (set_secret (env_put 304) octo ''FOO'' ''bar'' world0) \<and>
   put_status (env_put 304) (snd (set_secret (env_put 304) octo ''FOO'' ''bar'' world0)) = Some 304 \<and>
   \<not> (200 \<le> (304::int) \<and> (304::int) < 300)"
  by (simp add: run_defs)

text \<open>
  C3. In every call of \<open>set_secret\<close> the first request is the key fetch and at most one
  request follows, the PUT. Any PUT made in the call carries the \<open>key_id\<close> of the answer
  to that call's own key fetch, and as \<open>encrypted_value\<close> the base64 encoding of the
  plaintext sealed with the key of that same answer; its body is the JSON object with
  exactly these two fields. This holds from every starting
  world, and the manager holds no key, so nothing is carried over from an earlier call.
\<close>

theorem set_secret_uses_fetched_key:
  "(sent (snd (set_secret E m name val w)) = sent w @ [key_request m] \<or>
    (\<exists>j. sent (snd (set_secret E m name val w)) = sent w @ [key_request m, put_request m name j])) \<and>
   (\<forall>rq. rq \<in> set (drop (length (sent w)) (sent (snd (set_secret E m name val w)))) \<and>
         meth rq = PUT \<longrightarrow>
      (\<exists>rsp data k kid kb pk.
          net E (sent w) (key_request m) = Reply rsp \<and> json_body rsp = Inr data \<and>
          getitem data ''key'' = Inr k \<and> getitem data ''key_id'' = Inr kid \<and>
          b64decode E k = Inr kb \<and> PublicKey E kb = Inr pk \<and>
          rq = \<lparr>meth = PUT, req_url = base_url m @ ''/actions/secrets/'' @ name,
                req_headers = headers m,
                json_payload = Some (JObject
                  [(''encrypted_value'',
                    JString (b64encode E (sealed_box_encrypt E (draws w) pk val))),
                   (''key_id'', kid)])\<rparr>))"
proof (cases "fst (get_public_key E m w)")
  case (Inl e)
  note kf = set_secret_key_failure[OF Inl, of name val]
  show ?thesis by (simp add: kf(2)) (simp add: key_request_def)
next
  case (Inr kk)
  obtain k kid where kk: "kk = (k, kid)" by (cases kk)
  note key = Inr[unfolded kk]
  show ?thesis
  proof (cases "fst (encrypt_secret E k val (snd (get_public_key E m w)))")
    case (Inl e)
    note ef = set_secret_encrypt_failure[OF key Inl, of name]
    show ?thesis by (simp add: ef(2)) (simp add: key_request_def)
  next
    case (Inr ev)
    note pt = set_secret_put[OF key Inr, of name]
    obtain rsp data where r: "net E (sent w) (key_request m) = Reply rsp"
      "json_body rsp = Inr data" "getitem data ''key'' = Inr k"
      "getitem data ''key_id'' = Inr kid"
      using key unfolding get_public_key_Inr by blast
    obtain kb pk where e: "b64decode E k = Inr kb" "PublicKey E kb = Inr pk"
      "ev = b64encode E (sealed_box_encrypt E (draws w) pk val)"
      using Inr unfolding encrypt_secret_Inr get_public_key_draws by blast
    have g: "meth (key_request m) = GET" by (simp add: key_request_def)
    have pr: "put_request m name (secret_payload ev kid) =
        \<lparr>meth = PUT, req_url = base_url m @ ''/actions/secrets/'' @ name,
         req_headers = headers m,
         json_payload = Some (JObject
           [(''encrypted_value'',
             JString (b64encode E (sealed_box_encrypt E (draws w) pk val))),
            (''key_id'', kid)])\<rparr>"
      by (simp add: put_request_def secret_payload_def e(3))
    have d1: "\<exists>j. sent (snd (set_secret E m name val w)) =
        sent w @ [key_request m, put_request m name j]"
      using pt(1) by blast
    have d2: "\<forall>rq. rq \<in> set (drop (length (sent w)) (sent (snd (set_secret E m name val w)))) \<and>
         meth rq = PUT \<longrightarrow>
      (\<exists>rsp data k kid kb pk.
          net E (sent w) (key_request m) = Reply rsp \<and> json_body rsp = Inr data \<and>
          getitem data ''key'' = Inr k \<and> getitem data ''key_id'' = Inr kid \<and>
          b64decode E k = Inr kb \<and> PublicKey E kb = Inr pk \<and>
          rq = \<lparr>meth = PUT, req_url = base_url m @ ''/actions/secrets/'' @ name,
                req_headers = headers m,
                json_payload = Some (JObject
                  [(''encrypted_value'',
                    JString (b64encode E (sealed_box_encrypt E (draws w) pk val))),
                   (''key_id'', kid)])\<rparr>)"
    proof (intro allI impI)
      fix rq
      assume h: "rq \<in> set (drop (length (sent w)) (sent (snd (set_secret E m name val w)))) \<and>
         meth rq = PUT"
      then have "rq = put_request m name (secret_payload ev kid)"
        using g by (auto simp: pt(1))
      then have "rq = \<lparr>meth = PUT, req_url = base_url m @ ''/actions/secrets/'' @ name,
                req_headers = headers m,
                json_payload = Some (JObject
                  [(''encrypted_value'',
                    JString (b64encode E (sealed_box_encrypt E (draws w) pk val))),
                   (''key_id'', kid)])\<rparr>"
        unfolding pr .
      then show "\<exists>rsp data k kid kb pk.
          net E (sent w) (key_request m) = Reply rsp \<and> json_body rsp = Inr data \<and>
          getitem data ''key'' = Inr k \<and> getitem data ''key_id'' = Inr kid \<and>
          b64decode E k = Inr kb \<and> PublicKey E kb = Inr pk \<and>
          rq = \<lparr>meth = PUT, req_url = base_url m @ ''/actions/secrets/'' @ name,
                req_headers = headers m,
                json_payload = Some (JObject
                  [(''encrypted_value'',
                    JString (b64encode E (sealed_box_encrypt E (draws w) pk val))),
                   (''key_id'', kid)])\<rparr>"
        using r e(1) e(2) by blast
    qed
    show ?thesis by (rule conjI[OF disjI2[OF d1] d2])
  qed
qed

theorem set_secret_uses_fetched_key_witness:
  "sent (snd (set_secret env_rotating octo ''BAR'' ''two''
            (snd (set_secret env_rotating octo ''FOO'' ''one'' world0)))) =
     [key_request octo,
      put_request octo ''FOO''
        (JObject [(''encrypted_value'', JString ''0:PUBKEY-0:one''),
                  (''key_id'', JString ''kid-0'')]),
      key_request octo,
      put_request octo ''BAR''
        (JObject [(''encrypted_value'', JString ''1:PUBKEY-2:two''),
                  (''key_id'', JString ''kid-2'')])]"
  using set_secret_uses_fetched_key[of env_rotating octo "''BAR''" "''two''"
      "snd (set_secret env_rotating octo ''FOO'' ''one'' world0)"]
  by (simp add: run_defs str_nat.simps digit_char_def)

text \<open>
  C9. If the key fetch inside \<open>set_secret\<close> raises, \<open>set_secret\<close> returns false and
  the only request of the call is the GET of the key: no PUT is made.
\<close>

theorem set_secret_key_fetch_failure:
  assumes "fst (get_public_key E m w) = Inl e"
  shows "\<not> fst (set_secret E m name val w) \<and>
         sent (snd (set_secret E m name val w)) = sent w @ [key_request m] \<and>
         meth (key_request m) = GET \<and>
         list_all (\<lambda>rq. meth rq \<noteq> PUT)
           (drop (length (sent w)) (sent (snd (set_secret E m name val w))))"
  using set_secret_key_failure[OF assms, of name val]
  by (simp add: key_request_def)

theorem set_secret_key_fetch_failure_witness:
  "fst (get_public_key (env_key_status 404) octo world0) =
     Inl (Exception ''Cannot access repository secrets'') \<and>
   \<not> fst (set_secret (env_key_status 404) octo ''FOO'' ''bar'' world0) \<and>
   sent (snd (set_secret (env_key_status 404) octo ''FOO'' ''bar'' world0)) = [key_request octo] \<and>
   fst (get_public_key env_offline octo world0) =
     Inl (RequestException ''Connection refused'' None) \<and>
   \<not> fst (set_secret env_offline octo ''FOO'' ''bar'' world0) \<and>
   sent (snd (set_secret env_offline octo ''FOO'' ''bar'' world0)) = [key_request octo]"
proof -
  have a: "fst (get_public_key (env_key_status 404) octo world0) =
     Inl (Exception ''Cannot access repository secrets'')"
    by (simp add: run_defs)
  have b: "fst (get_public_key env_offline octo world0) =
     Inl (RequestException ''Connection refused'' None)"
    by (simp add: run_defs)
  have w0: "sent world0 = []" by (simp add: world0_def)
  show ?thesis
    using set_secret_key_fetch_failure[OF a, of "''FOO''" "''bar''"]
      set_secret_key_fetch_failure[OF b, of "''FOO''" "''bar''"] a b
    by (simp add: w0)
qed

lemma names_of_all2:
  "list_all2 (\<lambda>item nm. \<exists>obj. item = JObject obj \<and> map_of obj ''name'' = Some nm) items ns \<Longrightarrow>
   names_of items = Inr ns"
  by (induction items ns rule: list_all2_induct) auto

lemma list_secrets_fst:
  "fst (list_secrets E m w) =
     (case net E (sent w) (list_request m) of
        Raises msg \<Rightarrow> Inl (RequestException msg None)
      | Reply rsp \<Rightarrow>
          (case raise_for_status rsp of
             Inl e \<Rightarrow> Inl e
           | Inr u \<Rightarrow>
               (case response_json rsp of
                  Inl e \<Rightarrow> Inl e
                | Inr data \<Rightarrow>
                    (case getitem data ''secrets'' of
                       Inl e \<Rightarrow> Inl e
                     | Inr secrets \<Rightarrow>
                         (case iterate secrets of
                            Inl e \<Rightarrow> Inl e
                          | Inr items \<Rightarrow> names_of items)))))"
  by (auto simp: list_secrets_def requests_get_def list_request_def Let_def
      split: outcome.splits sum.splits prod.splits)

text \<open>
  C8. When the secrets-list endpoint answers with a status outside 400 to 599 and a body
  whose \<open>secrets\<close> field is a list of objects that each have a \<open>name\<close>,
  \<open>list_secrets\<close> returns exactly those names, in the order of the body and nothing
  else of the objects. When the request fails or the status is from 400 to 599 it raises
  the \<open>RequestException\<close>, which nothing in \<open>list_secrets\<close> catches.
\<close>

theorem list_secrets_names_in_order:
  "(\<forall>rsp fields items ns.
      net E (sent w) (list_request m) = Reply rsp \<and>
      \<not> (400 \<le> status_code rsp \<and> status_code rsp < 600) \<and>
      json_body rsp = Inr (JObject fields) \<and> map_of fields ''secrets'' = Some (JArray items) \<and>
      list_all2 (\<lambda>item nm. \<exists>obj. item = JObject obj \<and> map_of obj ''name'' = Some nm) items ns
      \<longrightarrow> fst (list_secrets E m w) = Inr ns) \<and>
   (\<forall>msg. net E (sent w) (list_request m) = Raises msg \<longrightarrow>
      fst (list_secrets E m w) = Inl (RequestException msg None)) \<and>
   (\<forall>rsp. net E (sent w) (list_request m) = Reply rsp \<and>
          400 \<le> status_code rsp \<and> status_code rsp < 600 \<longrightarrow>
      (\<exists>msg. fst (list_secrets E m w) = Inl (RequestException msg (Some rsp))))"
proof -
  have a: "\<forall>rsp fields items ns.
      net E (sent w) (list_request m) = Reply rsp \<and>
      \<not> (400 \<le> status_code rsp \<and> status_code rsp < 600) \<and>
      json_body rsp = Inr (JObject fields) \<and> map_of fields ''secrets'' = Some (JArray items) \<and>
      list_all2 (\<lambda>item nm. \<exists>obj. item = JObject obj \<and> map_of obj ''name'' = Some nm) items ns
      \<longrightarrow> fst (list_secrets E m w) = Inr ns"
    unfolding list_secrets_fst
    by (auto simp: raise_for_status_def response_json_def names_of_all2)
  have b: "\<forall>msg. net E (sent w) (list_request m) = Raises msg \<longrightarrow>
      fst (list_secrets E m w) = Inl (RequestException msg None)"
    unfolding list_secrets_fst by simp
  have c: "\<forall>rsp. net E (sent w) (list_request m) = Reply rsp \<and>
          400 \<le> status_code rsp \<and> status_code rsp < 600 \<longrightarrow>
      (\<exists>msg. fst (list_secrets E m w) = Inl (RequestException msg (Some rsp)))"
    unfolding list_secrets_fst by (auto simp: raise_for_status_def)
  show ?thesis using a b c by blast
qed

lemmas list_defs = list_secrets_def requests_get_def raise_for_status_def response_json_def
  stub_env_def reply_def octo_def GitHubSecretsManager_def world0_def Let_def
  secrets_listing_def env_listing_def env_list_status_def env_offline_def list_request_def

theorem list_secrets_names_in_order_witness:
  "fst (list_secrets env_listing octo world0) = Inr [JString ''ZETA'', JString ''ALPHA''] \<and>
   fst (list_secrets env_offline octo world0) = Inl (RequestException ''Connection refused'' None) \<and>
   fst (list_secrets (env_list_status 403) octo world0) =
     Inl (RequestException ''403 Client Error:  for url: '' (Some (reply 403 (Inr JNull))))"
  using list_secrets_names_in_order[of env_listing world0 octo]
  by (simp add: list_defs str_int_def str_nat.simps digit_char_def)

section \<open>Properties of the batch loops\<close>


lemma sync_calls_args:
  "map (\<lambda>call. (fst call, fst (snd call))) (sync_calls E m items w) =
     filter (\<lambda>kv. snd kv \<noteq> []) items"
  by (induction E m items w rule: sync_calls.induct) (auto split: prod.splits)


lemma upload_calls_args:
  "map (\<lambda>call. (fst call, fst (snd call))) (upload_calls E m items w) = items"
  by (induction E m items w rule: upload_calls.induct) (auto split: prod.splits)












lemmas loop_defs = run_defs env_second_fails_def cross_mark_def check_mark_def warning_sign_def







text \<open>The sync loop of set\_gh\_secrets.py never passes an empty value on.\<close>

lemma sync_never_passes_empty_value:
  "list_all (\<lambda>call. fst (snd call) \<noteq> []) (sync_calls E m items w)"
proof -
  have "list_all (\<lambda>kv. snd kv \<noteq> []) (filter (\<lambda>kv. snd kv \<noteq> []) items)"
    by (simp add: list_all_iff)
  then have "list_all (\<lambda>kv. snd kv \<noteq> [])
      (map (\<lambda>call. (fst call, fst (snd call))) (sync_calls E m items w))"
    by (simp add: sync_calls_args)
  then show ?thesis by (simp add: list_all_iff)
qed

lemma empty_cert_read:
  "fst (read_certificate_files empty_cert_files ''secrets/certs'' w) =
     [(''LETSENCRYPT_CERT'', []), (''LETSENCRYPT_KEY'', ''KEYDATA'')]"
  by (simp add: read_certificate_files_def read_one_def empty_cert_files_def strip_def
      isspace_def Let_def)

text \<open>
  C4. The upload loop of set\_cert\_secrets.py has no such filter. For a certificate
  directory whose \<open>letsencrypt-server.crt\<close> holds only a newline,
  \<open>read_certificate_files\<close> binds \<open>LETSENCRYPT_CERT\<close> to the empty string, the loop
  calls \<open>set_secret\<close> with it, and the PUT for \<open>LETSENCRYPT_CERT\<close> is made with the
  sealed empty plaintext.
\<close>

theorem upload_passes_empty_certificate:
  "fst (read_certificate_files empty_cert_files ''secrets/certs'' world0) =
     [(''LETSENCRYPT_CERT'', []), (''LETSENCRYPT_KEY'', ''KEYDATA'')] \<and>
   map (\<lambda>call. (fst call, fst (snd call)))
     (upload_calls (env_put 201) octo
        (fst (read_certificate_files empty_cert_files ''secrets/certs'' world0)) world0) =
     [(''LETSENCRYPT_CERT'', []), (''LETSENCRYPT_KEY'', ''KEYDATA'')] \<and>
   fst (upload_main (env_put 201) octo empty_cert_files ''secrets/certs'' world0) = Some (2, 2) \<and>
   filter (\<lambda>rq. meth rq = PUT)
     (sent (snd (upload_main (env_put 201) octo empty_cert_files ''secrets/certs'' world0))) =
     [put_request octo ''LETSENCRYPT_CERT'' (secret_payload ''0:PUBKEY:'' (JString ''kid-1'')),
      put_request octo ''LETSENCRYPT_KEY'' (secret_payload ''1:PUBKEY:KEYDATA'' (JString ''kid-1''))]"
  by (simp add: upload_calls_args empty_cert_read)
     (simp add: upload_main_def read_certificate_files_def read_one_def empty_cert_files_def
      strip_def isspace_def loop_defs str_nat.simps digit_char_def str_int_def
      arrows_sign_def bullet_def memo_sign_def)

end
